theory Spec2Isabelle
  imports Main "HOL-Library.Sublist"
begin

section \<open>Dashboard metric queries (packages/shared/src/server/repositories/dashboards.ts)\<close>

text \<open>
  The repository file builds one parameterised ClickHouse query per dashboard metric.
  Each metric function materialises a \<open>FilterList\<close> from the caller's \<open>FilterState\<close>,
  compiles it with \<open>apply()\<close>, splices the compiled text into a template literal, builds
  the parameter object with object spread, hands both to \<open>queryClickhouse\<close> and reshapes
  the rows. Strings are character lists; a template literal is the concatenation of its
  literal pieces and its interpolated values, with the line breaks and indentation of
  the source kept.
\<close>

subsection \<open>Data model\<close>

text \<open>
  A materialised filter, as far as dashboards.ts reads it: \<open>field\<close>, \<open>operator\<close>,
  \<open>value\<close> (here \<open>val\<close>) and \<open>clickhouseTable\<close>. The type \<open>'v\<close> is the type of filter values.
\<close>

record 'v Filter =
  field :: string
  operator :: string
  val :: 'v
  clickhouseTable :: string

text \<open>
  A value of the parameter object: the project id and the converted trace timestamp are
  strings, every other value is a filter value passed on as it is.
\<close>

datatype 'v param = PString string | PValue 'v

text \<open>The result of \<open>FilterList.apply()\<close>: \<open>{ query, params }\<close>.\<close>

record 'v ClickhouseFilter =
  query :: string
  params :: "string \<rightharpoonup> 'v param"

text \<open>
  The imported functions whose code is in other files of the repository are parameters
  of the model: \<open>createFilterFromFilterState(filter, dashboardColumnDefinitions)\<close> (the
  array handed to \<open>new FilterList\<close>), \<open>FilterList.apply()\<close>, and
  \<open>convertDateToClickhouseDateTime\<close>. \<open>FilterList.find\<close> is the linear lookup of the
  first filter satisfying a predicate, \<^const>\<open>find\<close> on the list; its result is truthy
  exactly when it is not \<open>None\<close>.
\<close>

record ('fs, 'v) collaborators =
  createFilterFromFilterState :: "'fs \<Rightarrow> 'v Filter list"
  FilterList_apply :: "'v Filter list \<Rightarrow> 'v ClickhouseFilter"
  convertDateToClickhouseDateTime :: "'v \<Rightarrow> string"

text \<open>
  Interpolating a value into a template literal: a string is spliced as it is, and
  \<open>undefined\<close> becomes the nine characters \<open>undefined\<close>.
\<close>

definition interpolate :: "string option \<Rightarrow> string" where
  "interpolate v = (case v of None \<Rightarrow> ''undefined'' | Some s \<Rightarrow> s)"

subsection \<open>Time bucketing\<close>

text \<open>
  \<open>DateTrunc\<close> is a type of string literals, erased at run time: the helpers switch on a
  string, and the \<open>default\<close> branch returns \<open>undefined\<close> (\<open>None\<close>).
\<close>

definition DateTrunc :: "string list" where
  "DateTrunc = [''year'', ''month'', ''week'', ''day'', ''hour'', ''minute'']"

definition orderByTimeSeries :: "string \<Rightarrow> string \<Rightarrow> string option" where
  "orderByTimeSeries dateTrunc col =
     (let interval =
        (if dateTrunc = ''year'' then Some ''toIntervalYear(1)''
         else if dateTrunc = ''month'' then Some ''toIntervalMonth(1)''
         else if dateTrunc = ''week'' then Some ''toIntervalWeek(1)''
         else if dateTrunc = ''day'' then Some ''toIntervalDay(1)''
         else if dateTrunc = ''hour'' then Some ''toIntervalHour(1)''
         else if dateTrunc = ''minute'' then Some ''toIntervalMinute(1)''
         else None)
      in case interval of
           None \<Rightarrow> None
         | Some i \<Rightarrow> Some (''ORDER BY '' @ col @ '' ASC WITH FILL STEP '' @ i))"

definition selectTimeseriesColumn :: "string \<Rightarrow> string \<Rightarrow> string \<Rightarrow> string option" where
  "selectTimeseriesColumn dateTrunc col as =
     (let interval =
        (if dateTrunc = ''year'' then Some ''toStartOfYear''
         else if dateTrunc = ''month'' then Some ''toStartOfMonth''
         else if dateTrunc = ''week'' then Some ''toStartOfWeek''
         else if dateTrunc = ''day'' then Some ''toStartOfDay''
         else if dateTrunc = ''hour'' then Some ''toStartOfHour''
         else if dateTrunc = ''minute'' then Some ''toStartOfMinute''
         else None)
      in case interval of
           None \<Rightarrow> None
         | Some i \<Rightarrow> Some (i @ ''('' @ col @ '') as '' @ as))"

subsection \<open>Metric query templates: query text and parameter object\<close>

definition getTotalTraces_query :: "('fs, 'v) collaborators \<Rightarrow> 'fs \<Rightarrow> string" where
  "getTotalTraces_query C filterState =
     (let chFilter = FilterList_apply C (createFilterFromFilterState C filterState)
      in ''\<newline>    SELECT \<newline>      count(id) as count \<newline>    FROM traces t FINAL \<newline>    WHERE project_id = {projectId: String}\<newline>    AND ''
         @ query chFilter)"

definition getTotalTraces_params ::
  "('fs, 'v) collaborators \<Rightarrow> string \<Rightarrow> 'fs \<Rightarrow> (string \<rightharpoonup> 'v param)" where
  "getTotalTraces_params C projectId filterState =
     (let chFilter = FilterList_apply C (createFilterFromFilterState C filterState)
      in [''projectId'' \<mapsto> PString projectId] ++ params chFilter)"

definition getObservationsCostGroupedByName_query ::
  "('fs, 'v) collaborators \<Rightarrow> 'fs \<Rightarrow> string" where
  "getObservationsCostGroupedByName_query C filterState =
     (let chFilter = createFilterFromFilterState C filterState;
          appliedFilter = FilterList_apply C chFilter;
          hasTraceFilter = find (\<lambda>f. clickhouseTable f = ''traces'') chFilter
      in ''\<newline>    SELECT \<newline>      provided_model_name as name,\<newline>      sumMap(cost_details)['total'] as sum_cost_details,\<newline>      sumMap(usage_details)['total'] as sum_usage_details\<newline>    FROM observations o FINAL ''
         @ (if hasTraceFilter \<noteq> None
            then ''LEFT JOIN traces t ON o.trace_id = t.id AND o.project_id = t.project_id''
            else '''')
         @ ''\<newline>    WHERE project_id = {projectId: String}\<newline>    AND ''
         @ query appliedFilter
         @ ''\<newline>    GROUP BY provided_model_name\<newline>    ORDER BY sumMap(cost_details)['total'] DESC\<newline>    '')"

definition getObservationsCostGroupedByName_params ::
  "('fs, 'v) collaborators \<Rightarrow> string \<Rightarrow> 'fs \<Rightarrow> (string \<rightharpoonup> 'v param)" where
  "getObservationsCostGroupedByName_params C projectId filterState =
     (let chFilter = createFilterFromFilterState C filterState;
          appliedFilter = FilterList_apply C chFilter
      in [''projectId'' \<mapsto> PString projectId] ++ params appliedFilter)"

definition getScoreAggregate_query :: "('fs, 'v) collaborators \<Rightarrow> 'fs \<Rightarrow> string" where
  "getScoreAggregate_query C filterState =
     (let chFilter = createFilterFromFilterState C filterState;
          timeFilter = find (\<lambda>f. field f = ''timestamp'' \<and>
                                  (operator f = ''>='' \<or> operator f = ''>'')) chFilter;
          chFilterApplied = FilterList_apply C chFilter;
          hasTraceFilter = find (\<lambda>f. clickhouseTable f = ''traces'') chFilter
      in ''\<newline>    SELECT \<newline>      s.name,\<newline>      count(*) as count,\<newline>      avg(s.value) as avg_value,\<newline>      s.source,\<newline>      s.data_type\<newline>    FROM scores s FINAL \<newline>     ''
         @ (if hasTraceFilter \<noteq> None
            then ''JOIN traces t FINAL ON t.id = s.trace_id AND t.project_id = s.project_id''
            else '''')
         @ ''\<newline>    WHERE s.project_id = {projectId: String}\<newline>    AND ''
         @ query chFilterApplied
         @ ''\<newline>    ''
         @ (if timeFilter \<noteq> None \<and> hasTraceFilter \<noteq> None
            then ''AND t.timestamp >= {tracesTimestamp: DateTime} - INTERVAL 1 HOUR''
            else '''')
         @ ''\<newline>    GROUP BY s.name, s.source, s.data_type\<newline>    ORDER BY count(*) DESC\<newline>    '')"

definition getScoreAggregate_params ::
  "('fs, 'v) collaborators \<Rightarrow> string \<Rightarrow> 'fs \<Rightarrow> (string \<rightharpoonup> 'v param)" where
  "getScoreAggregate_params C projectId filterState =
     (let chFilter = createFilterFromFilterState C filterState;
          timeFilter = find (\<lambda>f. field f = ''timestamp'' \<and>
                                  (operator f = ''>='' \<or> operator f = ''>'')) chFilter;
          chFilterApplied = FilterList_apply C chFilter
      in [''projectId'' \<mapsto> PString projectId] ++ params chFilterApplied
         ++ (case timeFilter of
               Some tf \<Rightarrow>
                 [''tracesTimestamp'' \<mapsto> PString (convertDateToClickhouseDateTime C (val tf))]
             | None \<Rightarrow> Map.empty))"

definition groupTracesByTime_query ::
  "('fs, 'v) collaborators \<Rightarrow> 'fs \<Rightarrow> string \<Rightarrow> string" where
  "groupTracesByTime_query C filterState groupBy =
     (let chFilter = FilterList_apply C (createFilterFromFilterState C filterState)
      in ''\<newline>    SELECT \<newline>      ''
         @ interpolate (selectTimeseriesColumn groupBy ''timestamp'' ''timestamp'')
         @ '',\<newline>      count(*) as count\<newline>    FROM traces t FINAL\<newline>    WHERE project_id = {projectId: String}\<newline>    AND ''
         @ query chFilter
         @ ''\<newline>    GROUP BY timestamp\<newline>    ''
         @ interpolate (orderByTimeSeries groupBy ''timestamp'')
         @ ''\<newline>    '')"

definition groupTracesByTime_params ::
  "('fs, 'v) collaborators \<Rightarrow> string \<Rightarrow> 'fs \<Rightarrow> (string \<rightharpoonup> 'v param)" where
  "groupTracesByTime_params C projectId filterState =
     (let chFilter = FilterList_apply C (createFilterFromFilterState C filterState)
      in [''projectId'' \<mapsto> PString projectId] ++ params chFilter)"

definition getObservationUsageByTime_query ::
  "('fs, 'v) collaborators \<Rightarrow> 'fs \<Rightarrow> string \<Rightarrow> string" where
  "getObservationUsageByTime_query C filterState groupBy =
     (let chFilter = createFilterFromFilterState C filterState;
          appliedFilter = FilterList_apply C chFilter
      in ''\<newline>    SELECT \<newline>      ''
         @ interpolate (selectTimeseriesColumn groupBy ''start_time'' ''start_time'')
         @ '',\<newline>      sumMap(usage_details)['total'] as sum_usage_details,\<newline>      sumMap(cost_details)['total'] as sum_cost_details,\<newline>      provided_model_name\<newline>    FROM observations o FINAL\<newline>    ''
         @ (if find (\<lambda>f. clickhouseTable f = ''traces'') chFilter \<noteq> None
            then ''LEFT JOIN traces t ON o.trace_id = t.id AND o.project_id = t.project_id''
            else '''')
         @ ''\<newline>    WHERE project_id = {projectId: String}\<newline>    AND ''
         @ query appliedFilter
         @ ''\<newline>    GROUP BY start_time, provided_model_name\<newline>    ''
         @ interpolate (orderByTimeSeries groupBy ''start_time'')
         @ ''\<newline>    '')"

definition getObservationUsageByTime_params ::
  "('fs, 'v) collaborators \<Rightarrow> string \<Rightarrow> 'fs \<Rightarrow> (string \<rightharpoonup> 'v param)" where
  "getObservationUsageByTime_params C projectId filterState =
     (let chFilter = createFilterFromFilterState C filterState;
          appliedFilter = FilterList_apply C chFilter
      in [''projectId'' \<mapsto> PString projectId] ++ params appliedFilter)"

definition getDistinctModels_query :: "('fs, 'v) collaborators \<Rightarrow> 'fs \<Rightarrow> string" where
  "getDistinctModels_query C filterState =
     (let chFilter = createFilterFromFilterState C filterState;
          appliedFilter = FilterList_apply C chFilter
      in ''\<newline>    SELECT \<newline>      distinct(provided_model_name) as model\<newline>    FROM observations o FINAL\<newline>    ''
         @ (if find (\<lambda>f. clickhouseTable f = ''traces'') chFilter \<noteq> None
            then ''LEFT JOIN traces t ON o.trace_id = t.id AND o.project_id = t.project_id''
            else '''')
         @ ''\<newline>    WHERE project_id = {projectId: String}\<newline>    AND ''
         @ query appliedFilter
         @ ''\<newline>    '')"

definition getDistinctModels_params ::
  "('fs, 'v) collaborators \<Rightarrow> string \<Rightarrow> 'fs \<Rightarrow> (string \<rightharpoonup> 'v param)" where
  "getDistinctModels_params C projectId filterState =
     (let chFilter = createFilterFromFilterState C filterState;
          appliedFilter = FilterList_apply C chFilter
      in [''projectId'' \<mapsto> PString projectId] ++ params appliedFilter)"

definition getModelUsageByUser_query :: "('fs, 'v) collaborators \<Rightarrow> 'fs \<Rightarrow> string" where
  "getModelUsageByUser_query C filterState =
     (let chFilter = createFilterFromFilterState C filterState;
          appliedFilter = FilterList_apply C chFilter;
          timeFilter = find (\<lambda>f. clickhouseTable f = ''observations'' \<and>
                                  field f = ''start_time'' \<and>
                                  (operator f = ''>='' \<or> operator f = ''>'')) chFilter
      in ''\<newline>    SELECT \<newline>      sumMap(usage_details)['total'] as sum_usage_details,\<newline>      sumMap(cost_details)['total'] as sum_cost_details,\<newline>      user_id\<newline>    FROM observations o FINAL\<newline>      JOIN traces t ON o.trace_id = t.id AND o.project_id = t.project_id\<newline>    WHERE project_id = {projectId: String}\<newline>    AND t.user_id IS NOT NULL\<newline>    AND ''
         @ query appliedFilter
         @ ''\<newline>    ''
         @ (if timeFilter \<noteq> None
            then ''AND t.timestamp >= {tractTimestamp: DateTime} - INTERVAL 1 HOUR''
            else '''')
         @ ''\<newline>    GROUP BY user_id\<newline>    '')"

definition getModelUsageByUser_params ::
  "('fs, 'v) collaborators \<Rightarrow> string \<Rightarrow> 'fs \<Rightarrow> (string \<rightharpoonup> 'v param)" where
  "getModelUsageByUser_params C projectId filterState =
     (let chFilter = createFilterFromFilterState C filterState;
          appliedFilter = FilterList_apply C chFilter;
          timeFilter = find (\<lambda>f. clickhouseTable f = ''observations'' \<and>
                                  field f = ''start_time'' \<and>
                                  (operator f = ''>='' \<or> operator f = ''>'')) chFilter
      in [''projectId'' \<mapsto> PString projectId] ++ params appliedFilter
         ++ (case timeFilter of
               Some tf \<Rightarrow> [''tractTimestamp'' \<mapsto> PValue (val tf)]
             | None \<Rightarrow> Map.empty))"

subsection \<open>Executing the query and reshaping the rows\<close>

text \<open>
  A value held by a result row: text, a number, a \<open>Date\<close>, or \<open>undefined\<close>. The types
  \<open>'n\<close> of numbers and \<open>'d\<close> of dates are left open. A row is an object, a finite map
  from property names to values; reading a property the object does not have gives
  \<open>undefined\<close>.
\<close>

datatype ('n, 'd) jsval = JUndefined | JString string | JNumber 'n | JDate 'd

type_synonym ('n, 'd) row = "string \<rightharpoonup> ('n, 'd) jsval"

definition property :: "('n, 'd) row \<Rightarrow> string \<Rightarrow> ('n, 'd) jsval" where
  "property r k = (case r k of None \<Rightarrow> JUndefined | Some v \<Rightarrow> v)"

text \<open>
  The conversions \<open>Number(x)\<close> and \<open>new Date(x)\<close> of the language are parameters: each
  takes any value and returns a number, respectively a date.
\<close>

record ('n, 'd) builtins =
  Number :: "('n, 'd) jsval \<Rightarrow> 'n"
  new_Date :: "('n, 'd) jsval \<Rightarrow> 'd"

text \<open>
  \<open>queryClickhouse\<close> is a parameter too: given the query text and the parameter object
  it returns the rows, or fails with an error of type \<open>'e\<close>, which the awaiting metric
  function passes on unchanged.
\<close>

type_synonym ('v, 'e, 'n, 'd) store =
  "string \<Rightarrow> (string \<rightharpoonup> 'v param) \<Rightarrow> 'e + ('n, 'd) row list"

definition getTotalTraces ::
  "('fs, 'v) collaborators \<Rightarrow> ('v, 'e, 'n, 'd) store \<Rightarrow> string \<Rightarrow> 'fs
     \<Rightarrow> 'e + ('n, 'd) row list option" where
  "getTotalTraces C queryClickhouse projectId filterState =
     (case queryClickhouse (getTotalTraces_query C filterState)
             (getTotalTraces_params C projectId filterState) of
        Inl e \<Rightarrow> Inl e
      | Inr result \<Rightarrow>
          if length result = 0 then Inr None
          else Inr (Some [Map.empty(''countTraceId'' \<mapsto> property (result ! 0) ''count'')]))"

definition getObservationsCostGroupedByName ::
  "('fs, 'v) collaborators \<Rightarrow> ('v, 'e, 'n, 'd) store \<Rightarrow> string \<Rightarrow> 'fs
     \<Rightarrow> 'e + ('n, 'd) row list" where
  "getObservationsCostGroupedByName C queryClickhouse projectId filterState =
     (case queryClickhouse (getObservationsCostGroupedByName_query C filterState)
             (getObservationsCostGroupedByName_params C projectId filterState) of
        Inl e \<Rightarrow> Inl e
      | Inr result \<Rightarrow> Inr result)"

definition getScoreAggregate ::
  "('fs, 'v) collaborators \<Rightarrow> ('v, 'e, 'n, 'd) store \<Rightarrow> string \<Rightarrow> 'fs
     \<Rightarrow> 'e + ('n, 'd) row list" where
  "getScoreAggregate C queryClickhouse projectId filterState =
     (case queryClickhouse (getScoreAggregate_query C filterState)
             (getScoreAggregate_params C projectId filterState) of
        Inl e \<Rightarrow> Inl e
      | Inr result \<Rightarrow> Inr result)"

definition groupTracesByTime ::
  "('fs, 'v) collaborators \<Rightarrow> ('n, 'd) builtins \<Rightarrow> ('v, 'e, 'n, 'd) store \<Rightarrow> string \<Rightarrow> 'fs
     \<Rightarrow> string \<Rightarrow> 'e + ('n, 'd) row list" where
  "groupTracesByTime C B queryClickhouse projectId filterState groupBy =
     (case queryClickhouse (groupTracesByTime_query C filterState groupBy)
             (groupTracesByTime_params C projectId filterState) of
        Inl e \<Rightarrow> Inl e
      | Inr result \<Rightarrow>
          Inr (map (\<lambda>row. [''timestamp'' \<mapsto> JDate (new_Date B (property row ''timestamp'')),
                             ''countTraceId'' \<mapsto> JNumber (Number B (property row ''count''))])
                   result))"

definition getObservationUsageByTime ::
  "('fs, 'v) collaborators \<Rightarrow> ('n, 'd) builtins \<Rightarrow> ('v, 'e, 'n, 'd) store \<Rightarrow> string \<Rightarrow> 'fs
     \<Rightarrow> string \<Rightarrow> 'e + ('n, 'd) row list" where
  "getObservationUsageByTime C B queryClickhouse projectId filterState groupBy =
     (case queryClickhouse (getObservationUsageByTime_query C filterState groupBy)
             (getObservationUsageByTime_params C projectId filterState) of
        Inl e \<Rightarrow> Inl e
      | Inr result \<Rightarrow>
          Inr (map (\<lambda>row. [''start_time'' \<mapsto> JDate (new_Date B (property row ''start_time'')),
                             ''sum_usage_details'' \<mapsto>
                               JNumber (Number B (property row ''sum_usage_details'')),
                             ''sum_cost_details'' \<mapsto> property row ''sum_cost_details'',
                             ''provided_model_name'' \<mapsto> property row ''provided_model_name''])
                   result))"

definition getDistinctModels ::
  "('fs, 'v) collaborators \<Rightarrow> ('v, 'e, 'n, 'd) store \<Rightarrow> string \<Rightarrow> 'fs
     \<Rightarrow> 'e + ('n, 'd) row list" where
  "getDistinctModels C queryClickhouse projectId filterState =
     (case queryClickhouse (getDistinctModels_query C filterState)
             (getDistinctModels_params C projectId filterState) of
        Inl e \<Rightarrow> Inl e
      | Inr result \<Rightarrow> Inr result)"

definition getModelUsageByUser ::
  "('fs, 'v) collaborators \<Rightarrow> ('n, 'd) builtins \<Rightarrow> ('v, 'e, 'n, 'd) store \<Rightarrow> string \<Rightarrow> 'fs
     \<Rightarrow> 'e + ('n, 'd) row list" where
  "getModelUsageByUser C B queryClickhouse projectId filterState =
     (case queryClickhouse (getModelUsageByUser_query C filterState)
             (getModelUsageByUser_params C projectId filterState) of
        Inl e \<Rightarrow> Inl e
      | Inr result \<Rightarrow>
          Inr (map (\<lambda>row. [''sumUsageDetails'' \<mapsto>
                               JNumber (Number B (property row ''sum_usage_details'')),
                             ''sumCostDetails'' \<mapsto>
                               JNumber (Number B (property row ''sum_cost_details'')),
                             ''userId'' \<mapsto> property row ''user_id''])
                   result))"

subsection \<open>Named placeholders of a query text\<close>

text \<open>
  The store's placeholder syntax is \<open>{name: Type}\<close>. The scanner below reads a query
  text from left to right and collects the names: outside a placeholder it waits for an
  opening brace, then it gathers the name up to the colon, then it skips the type up to
  the closing brace. \<open>scan_end\<close> is the state in which the scanner leaves a text, and a
  text is \<open>closed\<close> when every placeholder it opens is finished inside it.
\<close>

datatype scan_state = Outside | InName string | InType

fun scan :: "scan_state \<Rightarrow> string \<Rightarrow> string list" where
  "scan s [] = []"
| "scan Outside (c # cs) = (if c = CHR ''{'' then scan (InName []) cs else scan Outside cs)"
| "scan (InName n) (c # cs) =
     (if c = CHR '':'' then rev n # scan InType cs else scan (InName (c # n)) cs)"
| "scan InType (c # cs) = (if c = CHR ''}'' then scan Outside cs else scan InType cs)"

fun scan_end :: "scan_state \<Rightarrow> string \<Rightarrow> scan_state" where
  "scan_end s [] = s"
| "scan_end Outside (c # cs) =
     (if c = CHR ''{'' then scan_end (InName []) cs else scan_end Outside cs)"
| "scan_end (InName n) (c # cs) =
     (if c = CHR '':'' then scan_end InType cs else scan_end (InName (c # n)) cs)"
| "scan_end InType (c # cs) =
     (if c = CHR ''}'' then scan_end Outside cs else scan_end InType cs)"

definition placeholders :: "string \<Rightarrow> string list" where
  "placeholders q = scan Outside q"

definition closed :: "string \<Rightarrow> bool" where
  "closed q = (scan_end Outside q = Outside)"

text \<open>
  The invariant of a compiled filter: its text is closed, and its placeholders are
  exactly the keys of its parameter map.
\<close>

definition well_bound :: "'v ClickhouseFilter \<Rightarrow> bool" where
  "well_bound a = (closed (query a) \<and> set (placeholders (query a)) = dom (params a))"

subsection \<open>Kinds of values in a result row\<close>

definition is_number :: "('n, 'd) jsval \<Rightarrow> bool" where
  "is_number v = (case v of JNumber _ \<Rightarrow> True | _ \<Rightarrow> False)"

definition is_date :: "('n, 'd) jsval \<Rightarrow> bool" where
  "is_date v = (case v of JDate _ \<Rightarrow> True | _ \<Rightarrow> False)"

definition is_text :: "('n, 'd) jsval \<Rightarrow> bool" where
  "is_text v = (case v of JString _ \<Rightarrow> True | _ \<Rightarrow> False)"

subsection \<open>An instance of the collaborators\<close>

text \<open>
  A small filter compiler on which the templates can be evaluated: the filter state is
  the filter list itself, a filter is rendered as \<open>t.field op {name: String}\<close> with the
  first letter of its table as prefix and a name that grows with its position, the
  clauses are joined with \<open>AND\<close> and end in the tautology \<open>1=1\<close>, and a date is
  converted to text by the identity.
\<close>

fun example_apply_from :: "nat \<Rightarrow> 'v Filter list \<Rightarrow> 'v ClickhouseFilter" where
  "example_apply_from i [] = \<lparr>query = ''1=1'', params = Map.empty\<rparr>"
| "example_apply_from i (f # fl) =
     (let name = ''filter'' @ replicate i (CHR ''x'');
          rest = example_apply_from (Suc i) fl
      in \<lparr>query = take 1 (clickhouseTable f) @ ''.'' @ field f @ '' '' @ operator f
                   @ '' {'' @ name @ '': String} AND '' @ query rest,
          params = (params rest)(name \<mapsto> PValue (val f))\<rparr>)"

definition example_collaborators :: "(string Filter list, string) collaborators" where
  "example_collaborators =
     \<lparr>createFilterFromFilterState = (\<lambda>filterState. filterState),
      FilterList_apply = example_apply_from 0,
      convertDateToClickhouseDateTime = (\<lambda>d. d)\<rparr>"

definition example_trace_filter :: "string Filter" where
  "example_trace_filter =
     \<lparr>field = ''name'', operator = ''='', val = ''chat'', clickhouseTable = ''traces''\<rparr>"

definition example_score_time_filter :: "string Filter" where
  "example_score_time_filter =
     \<lparr>field = ''timestamp'', operator = ''>='', val = ''2024-01-01 00:00:00'',
      clickhouseTable = ''scores''\<rparr>"

definition example_start_time_filter :: "string Filter" where
  "example_start_time_filter =
     \<lparr>field = ''start_time'', operator = ''>'', val = ''2024-01-01 00:00:00'',
      clickhouseTable = ''observations''\<rparr>"

text \<open>
  A compiler whose parameter map itself binds the key \<open>projectId\<close>.
\<close>

definition example_shadowing_collaborators :: "(string Filter list, string) collaborators" where
  "example_shadowing_collaborators =
     \<lparr>createFilterFromFilterState = (\<lambda>filterState. filterState),
      FilterList_apply =
        (\<lambda>fl. \<lparr>query = ''project_id = {projectId: String}'',
                 params = [''projectId'' \<mapsto> PValue ''other'']\<rparr>),
      convertDateToClickhouseDateTime = (\<lambda>d. d)\<rparr>"

text \<open>
  A store that answers every query with the given rows, and conversions on which the
  reshaping can be evaluated: numbers are integers read from decimal digits, and a date
  is represented by its text.
\<close>

definition example_store ::
  "(int, string) row list \<Rightarrow> (string, string, int, string) store" where
  "example_store rows q p = Inr rows"

definition example_Number :: "(int, string) jsval \<Rightarrow> int" where
  "example_Number v =
     (case v of
        JNumber n \<Rightarrow> n
      | JString s \<Rightarrow> foldl (\<lambda>a c. 10 * a + (int (of_char c) - 48)) 0 s
      | _ \<Rightarrow> 0)"

definition example_Date :: "(int, string) jsval \<Rightarrow> string" where
  "example_Date v = (case v of JString s \<Rightarrow> s | JDate d \<Rightarrow> d | _ \<Rightarrow> ''Invalid Date'')"

definition example_builtins :: "(int, string) builtins" where
  "example_builtins = \<lparr>Number = example_Number, new_Date = example_Date\<rparr>"

definition example_score_row :: "(int, string) row" where
  "example_score_row =
     [''name'' \<mapsto> JString ''accuracy'', ''count'' \<mapsto> JString ''3'',
      ''avg_value'' \<mapsto> JString ''0.5'', ''source'' \<mapsto> JString ''API'',
      ''data_type'' \<mapsto> JString ''NUMERIC'']"

definition example_trace_bucket_row :: "(int, string) row" where
  "example_trace_bucket_row =
     [''timestamp'' \<mapsto> JString ''2024-01-01 10:00:00'', ''count'' \<mapsto> JString ''12'']"

definition example_count_row :: "(int, string) row" where
  "example_count_row = [''count'' \<mapsto> JNumber 5]"

section \<open>Properties\<close>

subsection \<open>Auxiliary facts on texts\<close>

text \<open>
  A pattern that does not contain the character \<open>x\<close> occurs in \<open>a @ x # b\<close> exactly
  when it occurs in \<open>a\<close> or in \<open>b\<close>: no occurrence can run across \<open>x\<close>.
\<close>

lemma sublist_sep:
  assumes "x \<notin> set K"
  shows "sublist K (a @ x # b) \<longleftrightarrow> sublist K a \<or> sublist K b"
proof
  assume "sublist K (a @ x # b)"
  then consider "sublist K a" | "sublist K (x # b)"
    | K1 K2 where "K = K1 @ K2" "suffix K1 a" "prefix K2 (x # b)"
    unfolding sublist_append by blast
  then show "sublist K a \<or> sublist K b"
  proof cases
    case 1
    then show ?thesis by simp
  next
    case 2
    then have "prefix K (x # b) \<or> sublist K b"
      by (simp add: sublist_Cons_right)
    moreover have "prefix K (x # b) \<Longrightarrow> K = []"
      using assms by (cases K) auto
    ultimately show ?thesis by auto
  next
    case 3
    have "K2 = []"
      using 3(1,3) assms by (cases K2) auto
    with 3 have "suffix K a" by simp
    then have "sublist K a" by (rule suffix_imp_sublist)
    then show ?thesis by simp
  qed
next
  assume "sublist K a \<or> sublist K b"
  then show "sublist K (a @ x # b)"
    by (auto simp: sublist_append sublist_Cons_right)
qed

lemma sublist_mono_pattern:
  "sublist K P \<Longrightarrow> \<not> sublist K ys \<Longrightarrow> \<not> sublist P ys"
  using sublist_order.order.trans by blast

lemma find_None_all: "find P xs = None \<longleftrightarrow> (\<forall>x\<in>set xs. \<not> P x)"
  by (auto simp: find_None_iff)

lemma find_Some_ex: "find P xs \<noteq> None \<longleftrightarrow> (\<exists>x\<in>set xs. P x)"
  by (simp add: find_None_all)

lemmas tpl_simps = Let_def sublist_Cons_right sublist_sep

lemma scan_append: "scan s (a @ b) = scan s a @ scan (scan_end s a) b"
  by (induction s a rule: scan.induct) simp_all

lemma scan_end_append: "scan_end s (a @ b) = scan_end (scan_end s a) b"
  by (induction s a rule: scan_end.induct) simp_all

lemma select_no_placeholder:
  "scan Outside (interpolate (selectTimeseriesColumn g ''timestamp'' ''timestamp'')) = []"
  "scan_end Outside (interpolate (selectTimeseriesColumn g ''timestamp'' ''timestamp'')) = Outside"
  "scan Outside (interpolate (selectTimeseriesColumn g ''start_time'' ''start_time'')) = []"
  "scan_end Outside (interpolate (selectTimeseriesColumn g ''start_time'' ''start_time'')) = Outside"
  by (simp_all add: interpolate_def selectTimeseriesColumn_def)

lemma order_no_placeholder:
  "scan Outside (interpolate (orderByTimeSeries g ''timestamp'')) = []"
  "scan_end Outside (interpolate (orderByTimeSeries g ''timestamp'')) = Outside"
  "scan Outside (interpolate (orderByTimeSeries g ''start_time'')) = []"
  "scan_end Outside (interpolate (orderByTimeSeries g ''start_time'')) = Outside"
  by (simp_all add: interpolate_def orderByTimeSeries_def)

lemmas ph_simps = placeholders_def well_bound_def closed_def Let_def scan_append scan_end_append
  select_no_placeholder order_no_placeholder

lemmas example_simps = example_collaborators_def example_trace_filter_def
  example_score_time_filter_def example_start_time_filter_def

subsection \<open>Time bucketing helpers\<close>

text \<open>
  C4. For each of the six granularities year, month, week, day, hour and minute,
  \<open>selectTimeseriesColumn\<close> returns the truncation \<open>toStartOf<Unit>(col) as <as>\<close> and
  \<open>orderByTimeSeries\<close> returns \<open>ORDER BY col ASC WITH FILL STEP toInterval<Unit>(1)\<close>,
  an ascending order with a gap fill of exactly one unit; for every other input both
  helpers return \<open>undefined\<close>.
\<close>

theorem time_bucketing_clauses:
  "selectTimeseriesColumn ''year'' col as = Some (''toStartOfYear('' @ col @ '') as '' @ as) \<and>
   selectTimeseriesColumn ''month'' col as = Some (''toStartOfMonth('' @ col @ '') as '' @ as) \<and>
   selectTimeseriesColumn ''week'' col as = Some (''toStartOfWeek('' @ col @ '') as '' @ as) \<and>
   selectTimeseriesColumn ''day'' col as = Some (''toStartOfDay('' @ col @ '') as '' @ as) \<and>
   selectTimeseriesColumn ''hour'' col as = Some (''toStartOfHour('' @ col @ '') as '' @ as) \<and>
   selectTimeseriesColumn ''minute'' col as = Some (''toStartOfMinute('' @ col @ '') as '' @ as) \<and>
   orderByTimeSeries ''year'' col = Some (''ORDER BY '' @ col @ '' ASC WITH FILL STEP toIntervalYear(1)'') \<and>
   orderByTimeSeries ''month'' col = Some (''ORDER BY '' @ col @ '' ASC WITH FILL STEP toIntervalMonth(1)'') \<and>
   orderByTimeSeries ''week'' col = Some (''ORDER BY '' @ col @ '' ASC WITH FILL STEP toIntervalWeek(1)'') \<and>
   orderByTimeSeries ''day'' col = Some (''ORDER BY '' @ col @ '' ASC WITH FILL STEP toIntervalDay(1)'') \<and>
   orderByTimeSeries ''hour'' col = Some (''ORDER BY '' @ col @ '' ASC WITH FILL STEP toIntervalHour(1)'') \<and>
   orderByTimeSeries ''minute'' col = Some (''ORDER BY '' @ col @ '' ASC WITH FILL STEP toIntervalMinute(1)'') \<and>
   (d \<notin> set DateTrunc \<longrightarrow>
      selectTimeseriesColumn d col as = None \<and> orderByTimeSeries d col = None)"
  by (simp add: selectTimeseriesColumn_def orderByTimeSeries_def DateTrunc_def)

theorem time_bucketing_clauses_witness:
  "''second'' \<notin> set DateTrunc \<and>
   selectTimeseriesColumn ''second'' ''timestamp'' ''timestamp'' = None \<and>
   orderByTimeSeries ''second'' ''timestamp'' = None"
proof -
  have outside: "''second'' \<notin> set DateTrunc"
    by (simp add: DateTrunc_def)
  with time_bucketing_clauses [of "''timestamp''" "''timestamp''" "''second''"]
  show ?thesis by blast
qed

subsection \<open>Join elision\<close>

lemma no_JOIN_select:
  "\<not> sublist ''JOIN'' (interpolate (selectTimeseriesColumn g ''start_time'' ''start_time''))"
  by (simp add: interpolate_def selectTimeseriesColumn_def sublist_Cons_right)

lemma no_JOIN_order:
  "\<not> sublist ''JOIN'' (interpolate (orderByTimeSeries g ''start_time''))"
  by (simp add: interpolate_def orderByTimeSeries_def sublist_Cons_right)

lemma join_cost_grouped_by_name:
  assumes "\<not> sublist ''JOIN'' (query (FilterList_apply C (createFilterFromFilterState C fs)))"
  shows "sublist ''JOIN traces'' (getObservationsCostGroupedByName_query C fs) \<longleftrightarrow>
         (\<exists>f\<in>set (createFilterFromFilterState C fs). clickhouseTable f = ''traces'')"
proof (cases "find (\<lambda>f. clickhouseTable f = ''traces'') (createFilterFromFilterState C fs)")
  case None
  with assms have "\<not> sublist ''JOIN'' (getObservationsCostGroupedByName_query C fs)"
    by (simp add: getObservationsCostGroupedByName_query_def tpl_simps)
  then have "\<not> sublist ''JOIN traces'' (getObservationsCostGroupedByName_query C fs)"
    by (rule sublist_mono_pattern [rotated]) (simp add: sublist_Cons_right)
  with None show ?thesis by (simp add: find_None_all)
next
  case (Some f)
  then have "sublist ''JOIN traces'' (getObservationsCostGroupedByName_query C fs)"
    by (simp add: getObservationsCostGroupedByName_query_def tpl_simps)
  moreover from Some
  have "\<exists>f\<in>set (createFilterFromFilterState C fs). clickhouseTable f = ''traces''"
    by (simp add: find_Some_ex [symmetric])
  ultimately show ?thesis by simp
qed

lemma join_usage_by_time:
  assumes "\<not> sublist ''JOIN'' (query (FilterList_apply C (createFilterFromFilterState C fs)))"
  shows "sublist ''JOIN traces'' (getObservationUsageByTime_query C fs g) \<longleftrightarrow>
         (\<exists>f\<in>set (createFilterFromFilterState C fs). clickhouseTable f = ''traces'')"
proof (cases "find (\<lambda>f. clickhouseTable f = ''traces'') (createFilterFromFilterState C fs)")
  case None
  with assms have "\<not> sublist ''JOIN'' (getObservationUsageByTime_query C fs g)"
    by (simp add: getObservationUsageByTime_query_def tpl_simps no_JOIN_select no_JOIN_order)
  then have "\<not> sublist ''JOIN traces'' (getObservationUsageByTime_query C fs g)"
    by (rule sublist_mono_pattern [rotated]) (simp add: sublist_Cons_right)
  with None show ?thesis by (simp add: find_None_all)
next
  case (Some f)
  then have "sublist ''JOIN traces'' (getObservationUsageByTime_query C fs g)"
    by (simp add: getObservationUsageByTime_query_def tpl_simps)
  moreover from Some
  have "\<exists>f\<in>set (createFilterFromFilterState C fs). clickhouseTable f = ''traces''"
    by (simp add: find_Some_ex [symmetric])
  ultimately show ?thesis by simp
qed

lemma join_distinct_models:
  assumes "\<not> sublist ''JOIN'' (query (FilterList_apply C (createFilterFromFilterState C fs)))"
  shows "sublist ''JOIN traces'' (getDistinctModels_query C fs) \<longleftrightarrow>
         (\<exists>f\<in>set (createFilterFromFilterState C fs). clickhouseTable f = ''traces'')"
proof (cases "find (\<lambda>f. clickhouseTable f = ''traces'') (createFilterFromFilterState C fs)")
  case None
  with assms have "\<not> sublist ''JOIN'' (getDistinctModels_query C fs)"
    by (simp add: getDistinctModels_query_def tpl_simps)
  then have "\<not> sublist ''JOIN traces'' (getDistinctModels_query C fs)"
    by (rule sublist_mono_pattern [rotated]) (simp add: sublist_Cons_right)
  with None show ?thesis by (simp add: find_None_all)
next
  case (Some f)
  then have "sublist ''JOIN traces'' (getDistinctModels_query C fs)"
    by (simp add: getDistinctModels_query_def tpl_simps)
  moreover from Some
  have "\<exists>f\<in>set (createFilterFromFilterState C fs). clickhouseTable f = ''traces''"
    by (simp add: find_Some_ex [symmetric])
  ultimately show ?thesis by simp
qed

lemma join_model_usage_by_user:
  "sublist ''JOIN traces'' (getModelUsageByUser_query C fs)"
  by (simp add: getModelUsageByUser_query_def tpl_simps)

text \<open>
  C1, as stated, fails for \<open>getModelUsageByUser\<close>: with an empty filter list, which has
  no filter on \<open>traces\<close>, its query still joins \<open>traces\<close>.
\<close>

theorem join_elision_counterexample:
  "sublist ''JOIN traces'' (getModelUsageByUser_query example_collaborators []) \<and>
   ''traces'' \<notin> set (map clickhouseTable (createFilterFromFilterState example_collaborators []))"
  by (simp add: join_model_usage_by_user example_collaborators_def)

text \<open>
  C1, amended. Let the compiled filter text not contain the word \<open>JOIN\<close>. Then for
  \<open>getObservationsCostGroupedByName\<close>, \<open>getObservationUsageByTime\<close> and
  \<open>getDistinctModels\<close> the query text contains a join on \<open>traces\<close> if and only if the
  filter list has a filter whose \<open>clickhouseTable\<close> is \<open>traces\<close>; the query of
  \<open>getModelUsageByUser\<close> contains a join on \<open>traces\<close> for every filter list.
\<close>

theorem join_elision:
  assumes "\<not> sublist ''JOIN'' (query (FilterList_apply C (createFilterFromFilterState C fs)))"
  shows "(sublist ''JOIN traces'' (getObservationsCostGroupedByName_query C fs) \<longleftrightarrow>
            (\<exists>f\<in>set (createFilterFromFilterState C fs). clickhouseTable f = ''traces'')) \<and>
         (sublist ''JOIN traces'' (getObservationUsageByTime_query C fs groupBy) \<longleftrightarrow>
            (\<exists>f\<in>set (createFilterFromFilterState C fs). clickhouseTable f = ''traces'')) \<and>
         (sublist ''JOIN traces'' (getDistinctModels_query C fs) \<longleftrightarrow>
            (\<exists>f\<in>set (createFilterFromFilterState C fs). clickhouseTable f = ''traces'')) \<and>
         sublist ''JOIN traces'' (getModelUsageByUser_query C fs)"
  by (intro conjI join_cost_grouped_by_name join_usage_by_time join_distinct_models
      join_model_usage_by_user assms)

theorem join_elision_witness:
  "\<not> sublist ''JOIN'' (query (FilterList_apply example_collaborators
        (createFilterFromFilterState example_collaborators [example_trace_filter]))) \<and>
   sublist ''JOIN traces''
     (getObservationsCostGroupedByName_query example_collaborators [example_trace_filter]) \<and>
   sublist ''JOIN traces''
     (getObservationUsageByTime_query example_collaborators [example_trace_filter] ''day'') \<and>
   sublist ''JOIN traces'' (getDistinctModels_query example_collaborators [example_trace_filter]) \<and>
   \<not> sublist ''JOIN'' (query (FilterList_apply example_collaborators
        (createFilterFromFilterState example_collaborators [example_start_time_filter]))) \<and>
   \<not> sublist ''JOIN traces''
     (getObservationsCostGroupedByName_query example_collaborators [example_start_time_filter]) \<and>
   \<not> sublist ''JOIN traces''
     (getObservationUsageByTime_query example_collaborators [example_start_time_filter] ''day'') \<and>
   \<not> sublist ''JOIN traces''
     (getDistinctModels_query example_collaborators [example_start_time_filter])"
proof -
  have h1: "\<not> sublist ''JOIN'' (query (FilterList_apply example_collaborators
        (createFilterFromFilterState example_collaborators [example_trace_filter])))"
    by (simp add: example_simps sublist_Cons_right)
  have h2: "\<not> sublist ''JOIN'' (query (FilterList_apply example_collaborators
        (createFilterFromFilterState example_collaborators [example_start_time_filter])))"
    by (simp add: example_simps sublist_Cons_right)
  have e1: "\<exists>f\<in>set (createFilterFromFilterState example_collaborators [example_trace_filter]).
              clickhouseTable f = ''traces''"
    by (simp add: example_simps)
  have e2: "\<not> (\<exists>f\<in>set (createFilterFromFilterState example_collaborators
                          [example_start_time_filter]). clickhouseTable f = ''traces'')"
    by (simp add: example_simps)
  from join_elision [OF h1, of "''day''"] e1
  have p1: "sublist ''JOIN traces''
     (getObservationsCostGroupedByName_query example_collaborators [example_trace_filter]) \<and>
   sublist ''JOIN traces''
     (getObservationUsageByTime_query example_collaborators [example_trace_filter] ''day'') \<and>
   sublist ''JOIN traces'' (getDistinctModels_query example_collaborators [example_trace_filter])"
    by (simp only: simp_thms)
  from join_elision [OF h2, of "''day''"] e2
  have p2: "\<not> sublist ''JOIN traces''
     (getObservationsCostGroupedByName_query example_collaborators [example_start_time_filter]) \<and>
   \<not> sublist ''JOIN traces''
     (getObservationUsageByTime_query example_collaborators [example_start_time_filter] ''day'') \<and>
   \<not> sublist ''JOIN traces''
     (getDistinctModels_query example_collaborators [example_start_time_filter])"
    by (simp only: simp_thms)
  from h1 p1 h2 p2 show ?thesis by (simp only: simp_thms)
qed

subsection \<open>The widened trace-timestamp bound of the score aggregate\<close>

lemma score_widening_find:
  assumes "\<not> sublist ''tracesTimestamp''
               (query (FilterList_apply C (createFilterFromFilterState C fs)))"
  shows "sublist ''t.timestamp >= {tracesTimestamp: DateTime} - INTERVAL 1 HOUR''
           (getScoreAggregate_query C fs) \<longleftrightarrow>
         find (\<lambda>f. field f = ''timestamp'' \<and> (operator f = ''>='' \<or> operator f = ''>''))
           (createFilterFromFilterState C fs) \<noteq> None \<and>
         find (\<lambda>f. clickhouseTable f = ''traces'') (createFilterFromFilterState C fs) \<noteq> None"
    (is "sublist ?P ?Q \<longleftrightarrow> ?t \<and> ?h")
proof (cases "?t \<and> ?h")
  case True
  then have "sublist ?P ?Q"
    by (simp add: getScoreAggregate_query_def tpl_simps)
  with True show ?thesis by simp
next
  case False
  with assms have "\<not> sublist ''tracesTimestamp'' ?Q"
    by (auto simp add: getScoreAggregate_query_def tpl_simps)
  then have "\<not> sublist ?P ?Q"
    by (rule sublist_mono_pattern [rotated]) (simp add: sublist_Cons_right)
  with False show ?thesis by simp
qed

text \<open>
  C2. Let the compiled filter text not mention \<open>tracesTimestamp\<close>. Then the query of
  \<open>getScoreAggregate\<close> contains the predicate
  \<open>t.timestamp >= {tracesTimestamp: DateTime} - INTERVAL 1 HOUR\<close>, a lower bound
  widened by exactly one hour, if and only if the filter list has a filter on field
  \<open>timestamp\<close> with operator \<open>>\<close> or \<open>>=\<close> and has a filter whose \<open>clickhouseTable\<close>
  is \<open>traces\<close>.
\<close>

theorem score_aggregate_widening:
  assumes "\<not> sublist ''tracesTimestamp''
               (query (FilterList_apply C (createFilterFromFilterState C fs)))"
  shows "sublist ''t.timestamp >= {tracesTimestamp: DateTime} - INTERVAL 1 HOUR''
           (getScoreAggregate_query C fs) \<longleftrightarrow>
         (\<exists>f\<in>set (createFilterFromFilterState C fs).
            field f = ''timestamp'' \<and> (operator f = ''>'' \<or> operator f = ''>='')) \<and>
         (\<exists>f\<in>set (createFilterFromFilterState C fs). clickhouseTable f = ''traces'')"
proof -
  have "(\<exists>f\<in>set (createFilterFromFilterState C fs).
            field f = ''timestamp'' \<and> (operator f = ''>'' \<or> operator f = ''>='')) \<longleftrightarrow>
        find (\<lambda>f. field f = ''timestamp'' \<and> (operator f = ''>='' \<or> operator f = ''>''))
           (createFilterFromFilterState C fs) \<noteq> None"
    unfolding find_Some_ex by blast
  then show ?thesis
    unfolding score_widening_find [OF assms] find_Some_ex [of "\<lambda>f. clickhouseTable f = ''traces''"]
    by (simp only:)
qed

theorem score_aggregate_widening_witness:
  "\<not> sublist ''tracesTimestamp'' (query (FilterList_apply example_collaborators
        (createFilterFromFilterState example_collaborators
           [example_score_time_filter, example_trace_filter]))) \<and>
   sublist ''t.timestamp >= {tracesTimestamp: DateTime} - INTERVAL 1 HOUR''
     (getScoreAggregate_query example_collaborators
        [example_score_time_filter, example_trace_filter]) \<and>
   \<not> sublist ''tracesTimestamp'' (query (FilterList_apply example_collaborators
        (createFilterFromFilterState example_collaborators [example_score_time_filter]))) \<and>
   \<not> sublist ''t.timestamp >= {tracesTimestamp: DateTime} - INTERVAL 1 HOUR''
     (getScoreAggregate_query example_collaborators [example_score_time_filter])"
proof -
  have h1: "\<not> sublist ''tracesTimestamp'' (query (FilterList_apply example_collaborators
        (createFilterFromFilterState example_collaborators
           [example_score_time_filter, example_trace_filter])))"
    by (simp add: example_simps sublist_Cons_right)
  have h2: "\<not> sublist ''tracesTimestamp'' (query (FilterList_apply example_collaborators
        (createFilterFromFilterState example_collaborators [example_score_time_filter])))"
    by (simp add: example_simps sublist_Cons_right)
  have e1: "(\<exists>f\<in>set (createFilterFromFilterState example_collaborators
                [example_score_time_filter, example_trace_filter]).
            field f = ''timestamp'' \<and> (operator f = ''>'' \<or> operator f = ''>='')) \<and>
         (\<exists>f\<in>set (createFilterFromFilterState example_collaborators
                [example_score_time_filter, example_trace_filter]). clickhouseTable f = ''traces'')"
    by (simp add: example_simps)
  have e2: "\<not> ((\<exists>f\<in>set (createFilterFromFilterState example_collaborators
                [example_score_time_filter]).
            field f = ''timestamp'' \<and> (operator f = ''>'' \<or> operator f = ''>='')) \<and>
         (\<exists>f\<in>set (createFilterFromFilterState example_collaborators
                [example_score_time_filter]). clickhouseTable f = ''traces''))"
    by (simp add: example_simps)
  from score_aggregate_widening [OF h1] e1
  have p1: "sublist ''t.timestamp >= {tracesTimestamp: DateTime} - INTERVAL 1 HOUR''
     (getScoreAggregate_query example_collaborators
        [example_score_time_filter, example_trace_filter])"
    by (simp only: simp_thms)
  from score_aggregate_widening [OF h2] e2
  have p2: "\<not> sublist ''t.timestamp >= {tracesTimestamp: DateTime} - INTERVAL 1 HOUR''
     (getScoreAggregate_query example_collaborators [example_score_time_filter])"
    by (simp only: simp_thms)
  from h1 p1 h2 p2 show ?thesis by (simp only: simp_thms)
qed

subsection \<open>Usage by user\<close>

lemma user_widening_find:
  assumes "\<not> sublist ''tractTimestamp''
               (query (FilterList_apply C (createFilterFromFilterState C fs)))"
  shows "sublist ''AND t.timestamp >= {tractTimestamp: DateTime} - INTERVAL 1 HOUR''
           (getModelUsageByUser_query C fs) \<longleftrightarrow>
         find (\<lambda>f. clickhouseTable f = ''observations'' \<and> field f = ''start_time'' \<and>
                    (operator f = ''>='' \<or> operator f = ''>''))
           (createFilterFromFilterState C fs) \<noteq> None"
    (is "sublist ?P ?Q \<longleftrightarrow> ?t")
proof (cases "?t")
  case True
  then have "sublist ?P ?Q"
    by (simp add: getModelUsageByUser_query_def tpl_simps)
  with True show ?thesis by simp
next
  case False
  with assms have "\<not> sublist ''tractTimestamp'' ?Q"
    by (auto simp add: getModelUsageByUser_query_def tpl_simps)
  then have "\<not> sublist ?P ?Q"
    by (rule sublist_mono_pattern [rotated]) (simp add: sublist_Cons_right)
  with False show ?thesis by simp
qed

lemma user_fixed_clauses:
  "sublist ''FROM observations o FINAL\<newline>      JOIN traces t ON o.trace_id = t.id AND o.project_id = t.project_id\<newline>''
     (getModelUsageByUser_query C fs)"
  "sublist ''AND t.user_id IS NOT NULL'' (getModelUsageByUser_query C fs)"
  "sublist ''GROUP BY user_id'' (getModelUsageByUser_query C fs)"
  by (simp_all add: getModelUsageByUser_query_def tpl_simps)

text \<open>
  C7. The query of \<open>getModelUsageByUser\<close> joins \<open>traces\<close> to \<open>observations\<close> with a
  plain (inner) \<open>JOIN\<close> on \<open>trace_id\<close> and \<open>project_id\<close>, written directly after the
  \<open>FROM\<close> item, contains \<open>AND t.user_id IS NOT NULL\<close>, and groups by \<open>user_id\<close>, for
  every filter state. If the compiled filter text does not mention the placeholder
  \<open>tractTimestamp\<close>, the query contains the trace-timestamp bound widened by one hour
  exactly when the filter list has a filter with \<open>clickhouseTable\<close> \<open>observations\<close>,
  field \<open>start_time\<close> and operator \<open>>\<close> or \<open>>=\<close>.
\<close>

theorem model_usage_by_user_query:
  "sublist ''FROM observations o FINAL\<newline>      JOIN traces t ON o.trace_id = t.id AND o.project_id = t.project_id\<newline>''
     (getModelUsageByUser_query C fs) \<and>
   sublist ''AND t.user_id IS NOT NULL'' (getModelUsageByUser_query C fs) \<and>
   sublist ''GROUP BY user_id'' (getModelUsageByUser_query C fs) \<and>
   (\<not> sublist ''tractTimestamp''
        (query (FilterList_apply C (createFilterFromFilterState C fs))) \<longrightarrow>
    (sublist ''AND t.timestamp >= {tractTimestamp: DateTime} - INTERVAL 1 HOUR''
       (getModelUsageByUser_query C fs) \<longleftrightarrow>
     (\<exists>f\<in>set (createFilterFromFilterState C fs).
        clickhouseTable f = ''observations'' \<and> field f = ''start_time'' \<and>
        (operator f = ''>'' \<or> operator f = ''>=''))))"
proof -
  have ex: "(\<exists>f\<in>set (createFilterFromFilterState C fs).
        clickhouseTable f = ''observations'' \<and> field f = ''start_time'' \<and>
        (operator f = ''>'' \<or> operator f = ''>='')) \<longleftrightarrow>
     find (\<lambda>f. clickhouseTable f = ''observations'' \<and> field f = ''start_time'' \<and>
                    (operator f = ''>='' \<or> operator f = ''>''))
           (createFilterFromFilterState C fs) \<noteq> None"
    unfolding find_Some_ex by blast
  show ?thesis
    unfolding ex using user_fixed_clauses [of C fs] user_widening_find [of C fs]
    by (intro conjI impI)
qed

theorem model_usage_by_user_query_witness:
  "\<not> sublist ''tractTimestamp'' (query (FilterList_apply example_collaborators
        (createFilterFromFilterState example_collaborators [example_start_time_filter]))) \<and>
   sublist ''AND t.timestamp >= {tractTimestamp: DateTime} - INTERVAL 1 HOUR''
     (getModelUsageByUser_query example_collaborators [example_start_time_filter]) \<and>
   \<not> sublist ''tractTimestamp'' (query (FilterList_apply example_collaborators
        (createFilterFromFilterState example_collaborators [example_trace_filter]))) \<and>
   \<not> sublist ''AND t.timestamp >= {tractTimestamp: DateTime} - INTERVAL 1 HOUR''
     (getModelUsageByUser_query example_collaborators [example_trace_filter])"
proof -
  have h1: "\<not> sublist ''tractTimestamp'' (query (FilterList_apply example_collaborators
        (createFilterFromFilterState example_collaborators [example_start_time_filter])))"
    by (simp add: example_simps sublist_Cons_right)
  have h2: "\<not> sublist ''tractTimestamp'' (query (FilterList_apply example_collaborators
        (createFilterFromFilterState example_collaborators [example_trace_filter])))"
    by (simp add: example_simps sublist_Cons_right)
  have e1: "\<exists>f\<in>set (createFilterFromFilterState example_collaborators [example_start_time_filter]).
        clickhouseTable f = ''observations'' \<and> field f = ''start_time'' \<and>
        (operator f = ''>'' \<or> operator f = ''>='')"
    by (simp add: example_simps)
  have e2: "\<not> (\<exists>f\<in>set (createFilterFromFilterState example_collaborators [example_trace_filter]).
        clickhouseTable f = ''observations'' \<and> field f = ''start_time'' \<and>
        (operator f = ''>'' \<or> operator f = ''>=''))"
    by (simp add: example_simps)
  from model_usage_by_user_query [of example_collaborators "[example_start_time_filter]"] h1 e1
  have p1: "sublist ''AND t.timestamp >= {tractTimestamp: DateTime} - INTERVAL 1 HOUR''
     (getModelUsageByUser_query example_collaborators [example_start_time_filter])"
    by (simp only: simp_thms)
  from model_usage_by_user_query [of example_collaborators "[example_trace_filter]"] h2 e2
  have p2: "\<not> sublist ''AND t.timestamp >= {tractTimestamp: DateTime} - INTERVAL 1 HOUR''
     (getModelUsageByUser_query example_collaborators [example_trace_filter])"
    by (simp only: simp_thms)
  from h1 p1 h2 p2 show ?thesis by (simp only: simp_thms)
qed

subsection \<open>Project scoping\<close>

text \<open>
  C8. In every metric template the \<open>WHERE\<close> clause starts with the exact-match
  predicate \<open>project_id = {projectId: String}\<close> (qualified as \<open>s.project_id\<close> in the
  score aggregate), which is conjoined by \<open>AND\<close> with the compiled filter expression
  (in \<open>getModelUsageByUser\<close> after the conjunct \<open>t.user_id IS NOT NULL\<close>), and the
  parameter object binds the key \<open>projectId\<close>.
\<close>

theorem project_scope:
  "sublist (''WHERE project_id = {projectId: String}\<newline>    AND ''
            @ query (FilterList_apply C (createFilterFromFilterState C fs)))
     (getTotalTraces_query C fs) \<and>
   sublist (''WHERE project_id = {projectId: String}\<newline>    AND ''
            @ query (FilterList_apply C (createFilterFromFilterState C fs)))
     (getObservationsCostGroupedByName_query C fs) \<and>
   sublist (''WHERE s.project_id = {projectId: String}\<newline>    AND ''
            @ query (FilterList_apply C (createFilterFromFilterState C fs)))
     (getScoreAggregate_query C fs) \<and>
   sublist (''WHERE project_id = {projectId: String}\<newline>    AND ''
            @ query (FilterList_apply C (createFilterFromFilterState C fs)))
     (groupTracesByTime_query C fs groupBy) \<and>
   sublist (''WHERE project_id = {projectId: String}\<newline>    AND ''
            @ query (FilterList_apply C (createFilterFromFilterState C fs)))
     (getObservationUsageByTime_query C fs groupBy) \<and>
   sublist (''WHERE project_id = {projectId: String}\<newline>    AND ''
            @ query (FilterList_apply C (createFilterFromFilterState C fs)))
     (getDistinctModels_query C fs) \<and>
   sublist (''WHERE project_id = {projectId: String}\<newline>    AND t.user_id IS NOT NULL\<newline>    AND ''
            @ query (FilterList_apply C (createFilterFromFilterState C fs)))
     (getModelUsageByUser_query C fs) \<and>
   ''projectId'' \<in> dom (getTotalTraces_params C projectId fs) \<and>
   ''projectId'' \<in> dom (getObservationsCostGroupedByName_params C projectId fs) \<and>
   ''projectId'' \<in> dom (getScoreAggregate_params C projectId fs) \<and>
   ''projectId'' \<in> dom (groupTracesByTime_params C projectId fs) \<and>
   ''projectId'' \<in> dom (getObservationUsageByTime_params C projectId fs) \<and>
   ''projectId'' \<in> dom (getDistinctModels_params C projectId fs) \<and>
   ''projectId'' \<in> dom (getModelUsageByUser_params C projectId fs)"
proof (intro conjI)
  show "sublist (''WHERE project_id = {projectId: String}\<newline>    AND ''
            @ query (FilterList_apply C (createFilterFromFilterState C fs)))
     (getTotalTraces_query C fs)"
    by (simp add: getTotalTraces_query_def Let_def sublist_Cons_right sublist_append)
  show "sublist (''WHERE project_id = {projectId: String}\<newline>    AND ''
            @ query (FilterList_apply C (createFilterFromFilterState C fs)))
     (getObservationsCostGroupedByName_query C fs)"
    by (simp add: getObservationsCostGroupedByName_query_def Let_def sublist_Cons_right
        sublist_append)
  show "sublist (''WHERE s.project_id = {projectId: String}\<newline>    AND ''
            @ query (FilterList_apply C (createFilterFromFilterState C fs)))
     (getScoreAggregate_query C fs)"
    by (simp add: getScoreAggregate_query_def Let_def sublist_Cons_right sublist_append)
  show "sublist (''WHERE project_id = {projectId: String}\<newline>    AND ''
            @ query (FilterList_apply C (createFilterFromFilterState C fs)))
     (groupTracesByTime_query C fs groupBy)"
    by (simp add: groupTracesByTime_query_def Let_def sublist_Cons_right sublist_append)
  show "sublist (''WHERE project_id = {projectId: String}\<newline>    AND ''
            @ query (FilterList_apply C (createFilterFromFilterState C fs)))
     (getObservationUsageByTime_query C fs groupBy)"
    by (simp add: getObservationUsageByTime_query_def Let_def sublist_Cons_right sublist_append)
  show "sublist (''WHERE project_id = {projectId: String}\<newline>    AND ''
            @ query (FilterList_apply C (createFilterFromFilterState C fs)))
     (getDistinctModels_query C fs)"
    by (simp add: getDistinctModels_query_def Let_def sublist_Cons_right sublist_append)
  show "sublist (''WHERE project_id = {projectId: String}\<newline>    AND t.user_id IS NOT NULL\<newline>    AND ''
            @ query (FilterList_apply C (createFilterFromFilterState C fs)))
     (getModelUsageByUser_query C fs)"
    by (simp add: getModelUsageByUser_query_def Let_def sublist_Cons_right sublist_append)
  show "''projectId'' \<in> dom (getTotalTraces_params C projectId fs)"
    by (simp add: getTotalTraces_params_def Let_def)
  show "''projectId'' \<in> dom (getObservationsCostGroupedByName_params C projectId fs)"
    by (simp add: getObservationsCostGroupedByName_params_def Let_def)
  show "''projectId'' \<in> dom (getScoreAggregate_params C projectId fs)"
    by (simp add: getScoreAggregate_params_def Let_def)
  show "''projectId'' \<in> dom (groupTracesByTime_params C projectId fs)"
    by (simp add: groupTracesByTime_params_def Let_def)
  show "''projectId'' \<in> dom (getObservationUsageByTime_params C projectId fs)"
    by (simp add: getObservationUsageByTime_params_def Let_def)
  show "''projectId'' \<in> dom (getDistinctModels_params C projectId fs)"
    by (simp add: getDistinctModels_params_def Let_def)
  show "''projectId'' \<in> dom (getModelUsageByUser_params C projectId fs)"
    by (simp add: getModelUsageByUser_params_def Let_def)
qed

subsection \<open>Spreading the filter parameters over the project id\<close>

text \<open>
  C9. The parameter object is \<open>{ projectId, ...filterParams }\<close> (followed, in two
  templates, by the trace-timestamp key): a key of the compiled filter's parameters keeps
  the filter's value. So when the compiled parameters bind \<open>projectId\<close>, every template
  sends that value instead of the caller's argument; when they do not, the caller's
  argument is sent.
\<close>

theorem filter_params_override_projectId:
  "(params (FilterList_apply C (createFilterFromFilterState C fs)) ''projectId'' = Some v \<longrightarrow>
      getTotalTraces_params C projectId fs ''projectId'' = Some v \<and>
      getObservationsCostGroupedByName_params C projectId fs ''projectId'' = Some v \<and>
      getScoreAggregate_params C projectId fs ''projectId'' = Some v \<and>
      groupTracesByTime_params C projectId fs ''projectId'' = Some v \<and>
      getObservationUsageByTime_params C projectId fs ''projectId'' = Some v \<and>
      getDistinctModels_params C projectId fs ''projectId'' = Some v \<and>
      getModelUsageByUser_params C projectId fs ''projectId'' = Some v) \<and>
   (params (FilterList_apply C (createFilterFromFilterState C fs)) ''projectId'' = None \<longrightarrow>
      getTotalTraces_params C projectId fs ''projectId'' = Some (PString projectId) \<and>
      getObservationsCostGroupedByName_params C projectId fs ''projectId'' = Some (PString projectId) \<and>
      getScoreAggregate_params C projectId fs ''projectId'' = Some (PString projectId) \<and>
      groupTracesByTime_params C projectId fs ''projectId'' = Some (PString projectId) \<and>
      getObservationUsageByTime_params C projectId fs ''projectId'' = Some (PString projectId) \<and>
      getDistinctModels_params C projectId fs ''projectId'' = Some (PString projectId) \<and>
      getModelUsageByUser_params C projectId fs ''projectId'' = Some (PString projectId))"
  by (simp add: getTotalTraces_params_def getObservationsCostGroupedByName_params_def
      getScoreAggregate_params_def groupTracesByTime_params_def
      getObservationUsageByTime_params_def getDistinctModels_params_def
      getModelUsageByUser_params_def Let_def map_add_def split: option.splits)

theorem filter_params_override_projectId_witness:
  "params (FilterList_apply example_shadowing_collaborators
      (createFilterFromFilterState example_shadowing_collaborators [])) ''projectId''
     = Some (PValue ''other'') \<and>
   getTotalTraces_params example_shadowing_collaborators ''proj1'' [] ''projectId''
     = Some (PValue ''other'') \<and>
   getModelUsageByUser_params example_shadowing_collaborators ''proj1'' [] ''projectId''
     = Some (PValue ''other'') \<and>
   params (FilterList_apply example_collaborators
      (createFilterFromFilterState example_collaborators [])) ''projectId'' = None \<and>
   getTotalTraces_params example_collaborators ''proj1'' [] ''projectId''
     = Some (PString ''proj1'')"
proof -
  have h1: "params (FilterList_apply example_shadowing_collaborators
      (createFilterFromFilterState example_shadowing_collaborators [])) ''projectId''
     = Some (PValue ''other'')"
    by (simp add: example_shadowing_collaborators_def)
  have h2: "params (FilterList_apply example_collaborators
      (createFilterFromFilterState example_collaborators [])) ''projectId'' = None"
    by (simp add: example_collaborators_def)
  from filter_params_override_projectId
         [of example_shadowing_collaborators "[]" "PValue ''other''" "''proj1''"] h1
  have p1: "getTotalTraces_params example_shadowing_collaborators ''proj1'' [] ''projectId''
     = Some (PValue ''other'') \<and>
   getModelUsageByUser_params example_shadowing_collaborators ''proj1'' [] ''projectId''
     = Some (PValue ''other'')"
    by (simp only: simp_thms)
  from filter_params_override_projectId
         [of example_collaborators "[]" "PValue ''other''" "''proj1''"] h2
  have p2: "getTotalTraces_params example_collaborators ''proj1'' [] ''projectId''
     = Some (PString ''proj1'')"
    by (simp only: simp_thms)
  from h1 p1 h2 p2 show ?thesis by (simp only: simp_thms)
qed

subsection \<open>Granularities outside the enumeration\<close>

lemma helpers_defined:
  assumes "g \<in> set DateTrunc"
  shows "selectTimeseriesColumn g col as \<noteq> None" "orderByTimeSeries g col \<noteq> None"
  using assms
  by (auto simp: DateTrunc_def selectTimeseriesColumn_def orderByTimeSeries_def)

lemma helpers_undefined:
  assumes "g \<notin> set DateTrunc"
  shows "selectTimeseriesColumn g col as = None" "orderByTimeSeries g col = None"
  using assms
  by (auto simp: DateTrunc_def selectTimeseriesColumn_def orderByTimeSeries_def)

lemma select_no_undefined:
  assumes "g \<in> set DateTrunc"
  shows "\<not> sublist ''undefined'' (interpolate (selectTimeseriesColumn g ''timestamp'' ''timestamp''))"
    and "\<not> sublist ''undefined'' (interpolate (selectTimeseriesColumn g ''start_time'' ''start_time''))"
  using assms
  by (auto simp: DateTrunc_def selectTimeseriesColumn_def interpolate_def sublist_Cons_right)

lemma order_no_undefined:
  assumes "g \<in> set DateTrunc"
  shows "\<not> sublist ''undefined'' (interpolate (orderByTimeSeries g ''timestamp''))"
    and "\<not> sublist ''undefined'' (interpolate (orderByTimeSeries g ''start_time''))"
  using assms
  by (auto simp: DateTrunc_def orderByTimeSeries_def interpolate_def sublist_Cons_right)

lemma traces_by_time_no_undefined:
  assumes "g \<in> set DateTrunc"
    and "\<not> sublist ''undefined'' (query (FilterList_apply C (createFilterFromFilterState C fs)))"
  shows "\<not> sublist ''undefined'' (groupTracesByTime_query C fs g)"
  using assms(2) select_no_undefined(1) [OF assms(1)] order_no_undefined(1) [OF assms(1)]
  by (simp add: groupTracesByTime_query_def tpl_simps)

lemma usage_by_time_no_undefined:
  assumes "g \<in> set DateTrunc"
    and "\<not> sublist ''undefined'' (query (FilterList_apply C (createFilterFromFilterState C fs)))"
  shows "\<not> sublist ''undefined'' (getObservationUsageByTime_query C fs g)"
  using assms(2) select_no_undefined(2) [OF assms(1)] order_no_undefined(2) [OF assms(1)]
  by (simp add: getObservationUsageByTime_query_def tpl_simps)

lemma traces_by_time_undefined:
  assumes "g \<notin> set DateTrunc"
  shows "sublist ''SELECT \<newline>      undefined,\<newline>      count(*) as count'' (groupTracesByTime_query C fs g)"
    and "sublist ''GROUP BY timestamp\<newline>    undefined\<newline>'' (groupTracesByTime_query C fs g)"
  by (simp_all add: groupTracesByTime_query_def helpers_undefined [OF assms] interpolate_def
      Let_def sublist_Cons_right sublist_append)

lemma usage_by_time_undefined:
  assumes "g \<notin> set DateTrunc"
  shows "sublist ''SELECT \<newline>      undefined,\<newline>      sumMap(usage_details)'' (getObservationUsageByTime_query C fs g)"
    and "sublist ''GROUP BY start_time, provided_model_name\<newline>    undefined\<newline>'' (getObservationUsageByTime_query C fs g)"
  by (simp_all add: getObservationUsageByTime_query_def helpers_undefined [OF assms]
      interpolate_def Let_def sublist_Cons_right sublist_append)

text \<open>
  C10. For a \<open>groupBy\<close> among the six \<open>DateTrunc\<close> values both helpers return a clause
  (their \<open>default\<close> branch is not taken), and the queries of \<open>groupTracesByTime\<close> and
  \<open>getObservationUsageByTime\<close> do not contain the text \<open>undefined\<close>, provided the
  compiled filter text does not. For any other string both helpers return
  \<open>undefined\<close>, and both templates still produce a query, with the text \<open>undefined\<close>
  in the place of the select column and in the place of the ordering clause.
\<close>

theorem undefined_interpolation:
  "(groupBy \<in> set DateTrunc \<longrightarrow>
      selectTimeseriesColumn groupBy col as \<noteq> None \<and>
      orderByTimeSeries groupBy col \<noteq> None \<and>
      (\<not> sublist ''undefined'' (query (FilterList_apply C (createFilterFromFilterState C fs)))
         \<longrightarrow> \<not> sublist ''undefined'' (groupTracesByTime_query C fs groupBy) \<and>
              \<not> sublist ''undefined'' (getObservationUsageByTime_query C fs groupBy))) \<and>
   (groupBy \<notin> set DateTrunc \<longrightarrow>
      selectTimeseriesColumn groupBy col as = None \<and>
      orderByTimeSeries groupBy col = None \<and>
      sublist ''SELECT \<newline>      undefined,\<newline>      count(*) as count''
        (groupTracesByTime_query C fs groupBy) \<and>
      sublist ''GROUP BY timestamp\<newline>    undefined\<newline>''
        (groupTracesByTime_query C fs groupBy) \<and>
      sublist ''SELECT \<newline>      undefined,\<newline>      sumMap(usage_details)''
        (getObservationUsageByTime_query C fs groupBy) \<and>
      sublist ''GROUP BY start_time, provided_model_name\<newline>    undefined\<newline>''
        (getObservationUsageByTime_query C fs groupBy))"
  by (intro conjI impI helpers_defined helpers_undefined traces_by_time_no_undefined
      usage_by_time_no_undefined traces_by_time_undefined usage_by_time_undefined)

theorem undefined_interpolation_witness:
  "''day'' \<in> set DateTrunc \<and>
   \<not> sublist ''undefined'' (query (FilterList_apply example_collaborators
        (createFilterFromFilterState example_collaborators [example_trace_filter]))) \<and>
   \<not> sublist ''undefined''
       (groupTracesByTime_query example_collaborators [example_trace_filter] ''day'') \<and>
   \<not> sublist ''undefined''
       (getObservationUsageByTime_query example_collaborators [example_trace_filter] ''day'') \<and>
   ''second'' \<notin> set DateTrunc \<and>
   sublist ''GROUP BY timestamp\<newline>    undefined\<newline>''
       (groupTracesByTime_query example_collaborators [example_trace_filter] ''second'') \<and>
   sublist ''GROUP BY start_time, provided_model_name\<newline>    undefined\<newline>''
       (getObservationUsageByTime_query example_collaborators [example_trace_filter] ''second'')"
proof -
  have d1: "''day'' \<in> set DateTrunc"
    by (simp add: DateTrunc_def)
  have d2: "''second'' \<notin> set DateTrunc"
    by (simp add: DateTrunc_def)
  have h: "\<not> sublist ''undefined'' (query (FilterList_apply example_collaborators
        (createFilterFromFilterState example_collaborators [example_trace_filter])))"
    by (simp add: example_simps sublist_Cons_right)
  from undefined_interpolation
         [of "''day''" "''timestamp''" "''timestamp''" example_collaborators
             "[example_trace_filter]"] d1 h
  have p1: "\<not> sublist ''undefined''
       (groupTracesByTime_query example_collaborators [example_trace_filter] ''day'') \<and>
   \<not> sublist ''undefined''
       (getObservationUsageByTime_query example_collaborators [example_trace_filter] ''day'')"
    by (simp only: simp_thms)
  from undefined_interpolation
         [of "''second''" "''timestamp''" "''timestamp''" example_collaborators
             "[example_trace_filter]"] d2
  have p2: "sublist ''GROUP BY timestamp\<newline>    undefined\<newline>''
       (groupTracesByTime_query example_collaborators [example_trace_filter] ''second'') \<and>
   sublist ''GROUP BY start_time, provided_model_name\<newline>    undefined\<newline>''
       (getObservationUsageByTime_query example_collaborators [example_trace_filter] ''second'')"
    by (simp only: simp_thms)
  from d1 h p1 d2 p2 show ?thesis by (simp only: simp_thms)
qed

subsection \<open>Placeholders and parameter keys\<close>

lemma placeholders_total_traces:
  assumes "well_bound (FilterList_apply C (createFilterFromFilterState C fs))"
  shows "set (placeholders (getTotalTraces_query C fs)) = dom (getTotalTraces_params C pid fs)"
  using assms
  by (simp add: getTotalTraces_query_def getTotalTraces_params_def ph_simps)

lemma placeholders_cost_grouped_by_name:
  assumes "well_bound (FilterList_apply C (createFilterFromFilterState C fs))"
  shows "set (placeholders (getObservationsCostGroupedByName_query C fs))
         = dom (getObservationsCostGroupedByName_params C pid fs)"
  using assms
  by (simp add: getObservationsCostGroupedByName_query_def
      getObservationsCostGroupedByName_params_def ph_simps)

lemma placeholders_traces_by_time:
  assumes "well_bound (FilterList_apply C (createFilterFromFilterState C fs))"
  shows "set (placeholders (groupTracesByTime_query C fs g)) = dom (groupTracesByTime_params C pid fs)"
  using assms
  by (simp add: groupTracesByTime_query_def groupTracesByTime_params_def ph_simps)

lemma placeholders_usage_by_time:
  assumes "well_bound (FilterList_apply C (createFilterFromFilterState C fs))"
  shows "set (placeholders (getObservationUsageByTime_query C fs g))
         = dom (getObservationUsageByTime_params C pid fs)"
  using assms
  by (simp add: getObservationUsageByTime_query_def getObservationUsageByTime_params_def ph_simps)

lemma placeholders_distinct_models:
  assumes "well_bound (FilterList_apply C (createFilterFromFilterState C fs))"
  shows "set (placeholders (getDistinctModels_query C fs)) = dom (getDistinctModels_params C pid fs)"
  using assms
  by (simp add: getDistinctModels_query_def getDistinctModels_params_def ph_simps)

lemma placeholders_model_usage_by_user:
  assumes "well_bound (FilterList_apply C (createFilterFromFilterState C fs))"
  shows "set (placeholders (getModelUsageByUser_query C fs))
         = dom (getModelUsageByUser_params C pid fs)"
  using assms
  by (auto simp add: getModelUsageByUser_query_def getModelUsageByUser_params_def ph_simps
      split: option.splits)

lemma placeholders_score_aggregate_bound:
  assumes "well_bound (FilterList_apply C (createFilterFromFilterState C fs))"
  shows "set (placeholders (getScoreAggregate_query C fs))
         \<subseteq> dom (getScoreAggregate_params C pid fs)"
  using assms
  by (auto simp add: getScoreAggregate_query_def getScoreAggregate_params_def ph_simps
      split: option.splits)

lemma placeholders_score_aggregate_used:
  assumes "well_bound (FilterList_apply C (createFilterFromFilterState C fs))"
    and "find (\<lambda>f. field f = ''timestamp'' \<and> (operator f = ''>='' \<or> operator f = ''>''))
           (createFilterFromFilterState C fs) \<noteq> None \<longrightarrow>
         find (\<lambda>f. clickhouseTable f = ''traces'') (createFilterFromFilterState C fs) \<noteq> None"
  shows "set (placeholders (getScoreAggregate_query C fs)) = dom (getScoreAggregate_params C pid fs)"
  using assms
  by (auto simp add: getScoreAggregate_query_def getScoreAggregate_params_def ph_simps
      split: option.splits)

text \<open>
  C3, as stated, fails for \<open>getScoreAggregate\<close>: for a lower bound on the score
  timestamp and no filter on \<open>traces\<close>, the compiled filter is well bound, the parameter
  object has the key \<open>tracesTimestamp\<close>, and no placeholder of the query has that name.
\<close>

theorem placeholder_binding_counterexample:
  "well_bound (FilterList_apply example_collaborators
      (createFilterFromFilterState example_collaborators [example_score_time_filter])) \<and>
   ''tracesTimestamp''
     \<in> dom (getScoreAggregate_params example_collaborators ''proj1'' [example_score_time_filter]) \<and>
   ''tracesTimestamp''
     \<notin> set (placeholders (getScoreAggregate_query example_collaborators [example_score_time_filter]))"
  by (simp add: example_simps well_bound_def closed_def placeholders_def
      getScoreAggregate_query_def getScoreAggregate_params_def Let_def)

text \<open>
  C3, amended. Let the compiled filter be well bound: its text is closed and its
  placeholders are exactly the keys of its parameters. Then in every metric template
  each placeholder of the query text is a key of the parameter object. In every
  template other than \<open>getScoreAggregate\<close> each key of the parameter object is the name
  of a placeholder as well; in \<open>getScoreAggregate\<close> this holds when the filter list has
  a filter on \<open>traces\<close> or has no filter on field \<open>timestamp\<close> with operator \<open>>\<close> or
  \<open>>=\<close>.
\<close>

theorem placeholder_binding:
  assumes "well_bound (FilterList_apply C (createFilterFromFilterState C fs))"
  shows "set (placeholders (getTotalTraces_query C fs)) = dom (getTotalTraces_params C projectId fs) \<and>
         set (placeholders (getObservationsCostGroupedByName_query C fs))
           = dom (getObservationsCostGroupedByName_params C projectId fs) \<and>
         set (placeholders (groupTracesByTime_query C fs groupBy))
           = dom (groupTracesByTime_params C projectId fs) \<and>
         set (placeholders (getObservationUsageByTime_query C fs groupBy))
           = dom (getObservationUsageByTime_params C projectId fs) \<and>
         set (placeholders (getDistinctModels_query C fs))
           = dom (getDistinctModels_params C projectId fs) \<and>
         set (placeholders (getModelUsageByUser_query C fs))
           = dom (getModelUsageByUser_params C projectId fs) \<and>
         set (placeholders (getScoreAggregate_query C fs))
           \<subseteq> dom (getScoreAggregate_params C projectId fs) \<and>
         ((\<exists>f\<in>set (createFilterFromFilterState C fs). clickhouseTable f = ''traces'') \<or>
          \<not> (\<exists>f\<in>set (createFilterFromFilterState C fs).
                field f = ''timestamp'' \<and> (operator f = ''>'' \<or> operator f = ''>=''))
          \<longrightarrow> set (placeholders (getScoreAggregate_query C fs))
                = dom (getScoreAggregate_params C projectId fs))"
proof -
  have "set (placeholders (getScoreAggregate_query C fs))
          = dom (getScoreAggregate_params C projectId fs)"
    if "(\<exists>f\<in>set (createFilterFromFilterState C fs). clickhouseTable f = ''traces'') \<or>
        \<not> (\<exists>f\<in>set (createFilterFromFilterState C fs).
              field f = ''timestamp'' \<and> (operator f = ''>'' \<or> operator f = ''>=''))"
  proof (rule placeholders_score_aggregate_used [OF assms])
    from that
    show "find (\<lambda>f. field f = ''timestamp'' \<and> (operator f = ''>='' \<or> operator f = ''>''))
           (createFilterFromFilterState C fs) \<noteq> None \<longrightarrow>
         find (\<lambda>f. clickhouseTable f = ''traces'') (createFilterFromFilterState C fs) \<noteq> None"
      unfolding find_Some_ex by blast
  qed
  then show ?thesis
    by (intro conjI impI placeholders_total_traces placeholders_cost_grouped_by_name
        placeholders_traces_by_time placeholders_usage_by_time placeholders_distinct_models
        placeholders_model_usage_by_user placeholders_score_aggregate_bound assms)
qed

theorem placeholder_binding_witness:
  "well_bound (FilterList_apply example_collaborators
      (createFilterFromFilterState example_collaborators
         [example_score_time_filter, example_trace_filter])) \<and>
   set (placeholders (getTotalTraces_query example_collaborators
         [example_score_time_filter, example_trace_filter]))
     = dom (getTotalTraces_params example_collaborators ''proj1''
         [example_score_time_filter, example_trace_filter]) \<and>
   set (placeholders (getModelUsageByUser_query example_collaborators
         [example_score_time_filter, example_trace_filter]))
     = dom (getModelUsageByUser_params example_collaborators ''proj1''
         [example_score_time_filter, example_trace_filter]) \<and>
   set (placeholders (getScoreAggregate_query example_collaborators
         [example_score_time_filter, example_trace_filter]))
     = dom (getScoreAggregate_params example_collaborators ''proj1''
         [example_score_time_filter, example_trace_filter])"
proof -
  have h: "well_bound (FilterList_apply example_collaborators
      (createFilterFromFilterState example_collaborators
         [example_score_time_filter, example_trace_filter]))"
    by (simp add: example_simps well_bound_def closed_def placeholders_def Let_def insert_commute)
  have e: "\<exists>f\<in>set (createFilterFromFilterState example_collaborators
         [example_score_time_filter, example_trace_filter]). clickhouseTable f = ''traces''"
    by (simp add: example_simps)
  from placeholder_binding [OF h, of "''proj1''" "''day''"] e
  have p: "set (placeholders (getTotalTraces_query example_collaborators
         [example_score_time_filter, example_trace_filter]))
     = dom (getTotalTraces_params example_collaborators ''proj1''
         [example_score_time_filter, example_trace_filter]) \<and>
   set (placeholders (getModelUsageByUser_query example_collaborators
         [example_score_time_filter, example_trace_filter]))
     = dom (getModelUsageByUser_params example_collaborators ''proj1''
         [example_score_time_filter, example_trace_filter]) \<and>
   set (placeholders (getScoreAggregate_query example_collaborators
         [example_score_time_filter, example_trace_filter]))
     = dom (getScoreAggregate_params example_collaborators ''proj1''
         [example_score_time_filter, example_trace_filter])"
    by (simp only: simp_thms)
  from h p show ?thesis by (simp only: simp_thms)
qed

subsection \<open>The empty result of the total trace count\<close>

text \<open>
  C5. When the store answers the query of \<open>getTotalTraces\<close> with no row, the function
  returns \<open>undefined\<close> and not a count of zero; when the store answers with at least one
  row, it returns the one-element list \<open>[{countTraceId: n}]\<close>, with \<open>n\<close> the \<open>count\<close> of
  the first row. In both cases it returns normally.
\<close>

theorem total_traces_empty_sentinel:
  assumes "queryClickhouse (getTotalTraces_query C fs) (getTotalTraces_params C projectId fs)
             = Inr result"
  shows "(result = [] \<longrightarrow> getTotalTraces C queryClickhouse projectId fs = Inr None) \<and>
         (result \<noteq> [] \<longrightarrow>
            getTotalTraces C queryClickhouse projectId fs
              = Inr (Some [Map.empty(''countTraceId'' \<mapsto> property (result ! 0) ''count'')]))"
  using assms by (simp add: getTotalTraces_def)

theorem total_traces_empty_sentinel_witness:
  "example_store [] (getTotalTraces_query example_collaborators [])
      (getTotalTraces_params example_collaborators ''proj1'' []) = Inr [] \<and>
   getTotalTraces example_collaborators (example_store []) ''proj1'' [] = Inr None \<and>
   example_store [example_count_row] (getTotalTraces_query example_collaborators [])
      (getTotalTraces_params example_collaborators ''proj1'' []) = Inr [example_count_row] \<and>
   getTotalTraces example_collaborators (example_store [example_count_row]) ''proj1'' []
     = Inr (Some [Map.empty(''countTraceId'' \<mapsto> JNumber 5)])"
proof -
  have h1: "example_store [] (getTotalTraces_query example_collaborators [])
      (getTotalTraces_params example_collaborators ''proj1'' []) = Inr []"
    by (simp add: example_store_def)
  have h2: "example_store [example_count_row] (getTotalTraces_query example_collaborators [])
      (getTotalTraces_params example_collaborators ''proj1'' []) = Inr [example_count_row]"
    by (simp add: example_store_def)
  have c: "property ([example_count_row] ! 0) ''count'' = JNumber 5"
    by (simp add: property_def example_count_row_def)
  from total_traces_empty_sentinel [where queryClickhouse = "example_store []", OF h1]
  have p1: "getTotalTraces example_collaborators (example_store []) ''proj1'' [] = Inr None"
    by simp
  from total_traces_empty_sentinel
         [where queryClickhouse = "example_store [example_count_row]", OF h2] c
  have p2: "getTotalTraces example_collaborators (example_store [example_count_row]) ''proj1'' []
     = Inr (Some [Map.empty(''countTraceId'' \<mapsto> JNumber 5)])"
    by simp
  from h1 p1 h2 p2 show ?thesis by (simp only: simp_thms)
qed

subsection \<open>Reshaping of result rows\<close>

text \<open>
  C6, as stated, fails for \<open>getScoreAggregate\<close>: it returns the rows of the store as
  they are, so a \<open>count\<close> and an \<open>avg_value\<close> that arrive as text are returned as text.
\<close>

theorem row_reshaping_counterexample:
  "getScoreAggregate example_collaborators (example_store [example_score_row]) ''proj1'' []
     = Inr [example_score_row] \<and>
   property example_score_row ''count'' = JString ''3'' \<and>
   property example_score_row ''avg_value'' = JString ''0.5'' \<and>
   \<not> is_number (property example_score_row ''count'') \<and>
   \<not> is_number (property example_score_row ''avg_value'')"
  by (simp add: getScoreAggregate_def example_store_def example_score_row_def property_def
      is_number_def)

text \<open>
  C6, amended. Whenever the store answers with rows: \<open>groupTracesByTime\<close> returns, row
  by row, \<open>timestamp\<close> converted to a \<open>Date\<close> and \<open>count\<close> converted to a number (as
  \<open>countTraceId\<close>); \<open>getObservationUsageByTime\<close> returns \<open>start_time\<close> converted to a
  \<open>Date\<close> and \<open>sum_usage_details\<close> converted to a number, and passes
  \<open>sum_cost_details\<close> and \<open>provided_model_name\<close> on; \<open>getModelUsageByUser\<close> returns
  \<open>sum_usage_details\<close> and \<open>sum_cost_details\<close> converted to numbers and passes \<open>user_id\<close>
  on; \<open>getScoreAggregate\<close>, \<open>getObservationsCostGroupedByName\<close> and
  \<open>getDistinctModels\<close> return the rows of the store unchanged.
\<close>

theorem row_reshaping:
  "(queryClickhouse (groupTracesByTime_query C fs groupBy)
        (groupTracesByTime_params C projectId fs) = Inr result \<longrightarrow>
      (\<exists>rows. groupTracesByTime C B queryClickhouse projectId fs groupBy = Inr rows \<and>
         length rows = length result \<and>
         (\<forall>i<length result.
            property (rows ! i) ''timestamp''
              = JDate (new_Date B (property (result ! i) ''timestamp'')) \<and>
            property (rows ! i) ''countTraceId''
              = JNumber (Number B (property (result ! i) ''count''))))) \<and>
   (queryClickhouse (getObservationUsageByTime_query C fs groupBy)
        (getObservationUsageByTime_params C projectId fs) = Inr result \<longrightarrow>
      (\<exists>rows. getObservationUsageByTime C B queryClickhouse projectId fs groupBy = Inr rows \<and>
         length rows = length result \<and>
         (\<forall>i<length result.
            property (rows ! i) ''start_time''
              = JDate (new_Date B (property (result ! i) ''start_time'')) \<and>
            property (rows ! i) ''sum_usage_details''
              = JNumber (Number B (property (result ! i) ''sum_usage_details'')) \<and>
            property (rows ! i) ''sum_cost_details'' = property (result ! i) ''sum_cost_details'' \<and>
            property (rows ! i) ''provided_model_name''
              = property (result ! i) ''provided_model_name''))) \<and>
   (queryClickhouse (getModelUsageByUser_query C fs)
        (getModelUsageByUser_params C projectId fs) = Inr result \<longrightarrow>
      (\<exists>rows. getModelUsageByUser C B queryClickhouse projectId fs = Inr rows \<and>
         length rows = length result \<and>
         (\<forall>i<length result.
            property (rows ! i) ''sumUsageDetails''
              = JNumber (Number B (property (result ! i) ''sum_usage_details'')) \<and>
            property (rows ! i) ''sumCostDetails''
              = JNumber (Number B (property (result ! i) ''sum_cost_details'')) \<and>
            property (rows ! i) ''userId'' = property (result ! i) ''user_id''))) \<and>
   (queryClickhouse (getScoreAggregate_query C fs)
        (getScoreAggregate_params C projectId fs) = Inr result \<longrightarrow>
      getScoreAggregate C queryClickhouse projectId fs = Inr result) \<and>
   (queryClickhouse (getObservationsCostGroupedByName_query C fs)
        (getObservationsCostGroupedByName_params C projectId fs) = Inr result \<longrightarrow>
      getObservationsCostGroupedByName C queryClickhouse projectId fs = Inr result) \<and>
   (queryClickhouse (getDistinctModels_query C fs)
        (getDistinctModels_params C projectId fs) = Inr result \<longrightarrow>
      getDistinctModels C queryClickhouse projectId fs = Inr result)"
  by (simp add: groupTracesByTime_def getObservationUsageByTime_def getModelUsageByUser_def
      getScoreAggregate_def getObservationsCostGroupedByName_def getDistinctModels_def
      property_def)

theorem row_reshaping_witness:
  "example_store [example_trace_bucket_row]
      (groupTracesByTime_query example_collaborators [] ''hour'')
      (groupTracesByTime_params example_collaborators ''proj1'' [])
     = Inr [example_trace_bucket_row] \<and>
   (\<exists>rows. groupTracesByTime example_collaborators example_builtins
              (example_store [example_trace_bucket_row]) ''proj1'' [] ''hour'' = Inr rows \<and>
      length rows = 1 \<and>
      property (rows ! 0) ''timestamp'' = JDate ''2024-01-01 10:00:00'' \<and>
      property (rows ! 0) ''countTraceId'' = JNumber 12)"
proof -
  have h: "example_store [example_trace_bucket_row]
      (groupTracesByTime_query example_collaborators [] ''hour'')
      (groupTracesByTime_params example_collaborators ''proj1'' [])
     = Inr [example_trace_bucket_row]"
    by (simp add: example_store_def)
  have d: "new_Date example_builtins (property ([example_trace_bucket_row] ! 0) ''timestamp'')
             = ''2024-01-01 10:00:00''"
    by (simp add: example_builtins_def example_Date_def property_def example_trace_bucket_row_def)
  have n: "Number example_builtins (property ([example_trace_bucket_row] ! 0) ''count'') = 12"
    by (simp add: example_builtins_def example_Number_def property_def
        example_trace_bucket_row_def)
  from row_reshaping [where queryClickhouse = "example_store [example_trace_bucket_row]"
      and C = example_collaborators and fs = "[]" and groupBy = "''hour''"
      and projectId = "''proj1''" and result = "[example_trace_bucket_row]"
      and B = example_builtins] h
  obtain rows where r:
    "groupTracesByTime example_collaborators example_builtins
       (example_store [example_trace_bucket_row]) ''proj1'' [] ''hour'' = Inr rows"
    "length rows = length [example_trace_bucket_row]"
    "\<forall>i<length [example_trace_bucket_row].
        property (rows ! i) ''timestamp''
          = JDate (new_Date example_builtins (property ([example_trace_bucket_row] ! i) ''timestamp'')) \<and>
        property (rows ! i) ''countTraceId''
          = JNumber (Number example_builtins (property ([example_trace_bucket_row] ! i) ''count''))"
    by blast
  from r(3) have "property (rows ! 0) ''timestamp''
          = JDate (new_Date example_builtins (property ([example_trace_bucket_row] ! 0) ''timestamp'')) \<and>
        property (rows ! 0) ''countTraceId''
          = JNumber (Number example_builtins (property ([example_trace_bucket_row] ! 0) ''count''))"
    by simp
  with d n have "property (rows ! 0) ''timestamp'' = JDate ''2024-01-01 10:00:00'' \<and>
      property (rows ! 0) ''countTraceId'' = JNumber 12"
    by (simp only:)
  with r(1,2) h show ?thesis by auto
qed

end
